theory Spec2Isabelle
  imports Main
begin

section \<open>The object-model wrapper \<open>V<T, region_type, Base>\<close> of \<open>rt/cpp/vobject.h\<close>\<close>

text \<open>
  The header is a class template. What it computes, it computes from the declaration of
  the user's type \<open>T\<close> while the program is compiled, so the embedding has two stages:
  a declaration is data, instantiating the template on it either fails with a compile
  error or yields the descriptor and the run-time entry points, and the entry points run
  against the collaborators the header calls (allocator, regions, scheduler), which are
  parameters.
\<close>

subsection \<open>Declarations of a candidate type\<close>

datatype access = Public | Protected | Private

text \<open>
  The types of arguments and parameters. The calls of this header pass an lvalue of type
  \<open>Object*\<close> (\<open>Object_ptr\<close>), an lvalue of type \<open>ObjectStack\<close>
  (\<open>ObjectStack_ref\<close>) or the \<open>size_t\<close> of an allocation. A parameter has one of
  the types such an argument converts to: \<open>Object*\<close>, \<open>const Object*\<close>,
  \<open>void*\<close>, \<open>const void*\<close>, \<open>bool\<close>; \<open>ObjectStack&\<close>,
  \<open>const ObjectStack&\<close>, \<open>ObjectStack\<close> by value; \<open>size_t\<close>,
  \<open>Alloc*\<close>. \<open>Defaulted p\<close> is a parameter of type \<open>p\<close> with a default
  argument, \<open>Other_type\<close> a type that none of the arguments converts to.
\<close>

datatype ctype =
    Object_ptr | Const_Object_ptr | Void_ptr | Const_void_ptr | Bool_type
  | ObjectStack_ref | Const_ObjectStack_ref | ObjectStack_value
  | Size_t | Alloc_ptr
  | Defaulted ctype
  | Other_type string

text \<open>
  What a member name can denote: a non-static member function, without or with the
  \<open>const\<close> qualifier; a static member function, defined or declared \<open>= delete\<close>
  (allocation and deallocation functions are static); a data member whose address can be
  taken; a bit-field, a non-static member of reference type or an enumerator, whose
  address cannot; a nested type.
\<close>

datatype member_kind =
    Method "ctype list"
  | Const_method "ctype list"
  | Static_method "ctype list"
  | Deleted_method "ctype list"
  | Data_member
  | Bit_field
  | Reference_member
  | Enumerator
  | Nested_type

record member_decl =
  m_name :: string
  m_access :: access
  m_kind :: member_kind

text \<open>Modelled from the spec: the enumeration \<open>RegionType\<close> of the second template
  argument is declared in \<open>region.h\<close>; the spec names the three storage disciplines
  trace region, arena region and ownership cell. \<open>Other_region\<close> stands for any
  further value of the enumeration.\<close>

datatype RegionType = Trace | Arena | Cown_region | Other_region nat

text \<open>The third template argument: \<open>Object\<close>, \<open>Cown\<close>, or some other class.\<close>

datatype base_class = Object | Cown | Other_base string

text \<open>
  A declaration \<open>struct T : V<T, region_type, Base> { members }\<close>. The members the
  class \<open>Base\<close> declares live in another header and are a field of the declaration,
  as are the two facts the compiler and \<open>vsizeof\<close> supply about \<open>T\<close>. The
  declaration has the wrapper as its only base, inherited publicly, and declares no
  friends, no member templates, no variadic functions and no data member of a callable
  type.
\<close>

record decl =
  members :: "member_decl list"
  trivially_destructible :: bool
  vsizeof :: nat
  region_type :: RegionType
  Base :: base_class
  Base_members :: "member_decl list"

subsection \<open>Name lookup, access and calls\<close>

datatype scope = In_T | In_V | In_Base

text \<open>The members \<open>V\<close> declares itself: the private ones of lines 58 to 94, and
  the public allocation and deallocation functions of lines 99 to 168, of which the three
  array forms are deleted.\<close>

definition V_members :: "member_decl list" where
  "V_members =
    [\<lparr>m_name = ''RegionClass'', m_access = Private, m_kind = Nested_type\<rparr>,
     \<lparr>m_name = ''gc_trace'', m_access = Private,
       m_kind = Static_method [Const_Object_ptr, ObjectStack_ref]\<rparr>,
     \<lparr>m_name = ''gc_notified'', m_access = Private, m_kind = Static_method [Object_ptr]\<rparr>,
     \<lparr>m_name = ''gc_final'', m_access = Private,
       m_kind = Static_method [Object_ptr, Object_ptr, ObjectStack_ref]\<rparr>,
     \<lparr>m_name = ''gc_destructor'', m_access = Private, m_kind = Static_method [Object_ptr]\<rparr>,
     \<lparr>m_name = ''desc'', m_access = Private, m_kind = Data_member\<rparr>,
     \<lparr>m_name = ''trace'', m_access = Private, m_kind = Method [ObjectStack_ref]\<rparr>,
     \<lparr>m_name = ''get_alloc_epoch'', m_access = Private, m_kind = Static_method []\<rparr>,
     \<lparr>m_name = ''operator new'', m_access = Public, m_kind = Static_method [Size_t]\<rparr>,
     \<lparr>m_name = ''operator new'', m_access = Public,
       m_kind = Static_method [Size_t, Alloc_ptr]\<rparr>,
     \<lparr>m_name = ''operator new'', m_access = Public,
       m_kind = Static_method [Size_t, Object_ptr]\<rparr>,
     \<lparr>m_name = ''operator new'', m_access = Public,
       m_kind = Static_method [Size_t, Alloc_ptr, Object_ptr]\<rparr>,
     \<lparr>m_name = ''operator delete'', m_access = Public, m_kind = Static_method [Void_ptr]\<rparr>,
     \<lparr>m_name = ''operator delete'', m_access = Public,
       m_kind = Static_method [Void_ptr, Size_t]\<rparr>,
     \<lparr>m_name = ''operator delete'', m_access = Public,
       m_kind = Static_method [Void_ptr, Alloc_ptr]\<rparr>,
     \<lparr>m_name = ''operator delete'', m_access = Public,
       m_kind = Static_method [Void_ptr, Object_ptr]\<rparr>,
     \<lparr>m_name = ''operator delete'', m_access = Public,
       m_kind = Static_method [Void_ptr, Alloc_ptr, Object_ptr]\<rparr>,
     \<lparr>m_name = ''operator new[]'', m_access = Public, m_kind = Deleted_method [Size_t]\<rparr>,
     \<lparr>m_name = ''operator delete[]'', m_access = Public, m_kind = Deleted_method [Void_ptr]\<rparr>,
     \<lparr>m_name = ''operator delete[]'', m_access = Public,
       m_kind = Deleted_method [Void_ptr, Size_t]\<rparr>]"

definition named :: "string \<Rightarrow> member_decl list \<Rightarrow> member_decl list" where
  "named n ms = filter (\<lambda>m. m_name m = n) ms"

text \<open>Lookup of a name in the scope of \<open>T\<close>: the declarations of the innermost
  class that has any hide those of its bases.\<close>

definition lookup :: "decl \<Rightarrow> string \<Rightarrow> (scope \<times> member_decl) list" where
  "lookup d n =
    (if named n (members d) \<noteq> [] then map (Pair In_T) (named n (members d))
     else if named n V_members \<noteq> [] then map (Pair In_V) (named n V_members)
     else map (Pair In_Base) (named n (Base_members d)))"

text \<open>Where a name is used: at namespace scope (the capability predicates) or inside a
  member of \<open>V\<close> (the trampolines).\<close>

datatype use_site = At_namespace | Inside_V

fun accessible :: "use_site \<Rightarrow> scope \<times> member_decl \<Rightarrow> bool" where
  "accessible At_namespace (s, m) = (m_access m = Public)"
| "accessible Inside_V (In_V, m) = True"
| "accessible Inside_V (In_T, m) = (m_access m = Public)"
| "accessible Inside_V (In_Base, m) = (m_access m \<noteq> Private)"

text \<open>The member kinds of which \<open>&T::n\<close> can be formed.\<close>

fun addressable :: "member_kind \<Rightarrow> bool" where
  "addressable (Method ps) = True"
| "addressable (Const_method ps) = True"
| "addressable (Static_method ps) = True"
| "addressable (Deleted_method ps) = False"
| "addressable Data_member = True"
| "addressable Bit_field = False"
| "addressable Reference_member = False"
| "addressable Enumerator = False"
| "addressable Nested_type = False"

text \<open>
  \<open>decltype(&T::n)\<close> names a type exactly when \<open>&T::n\<close> is a well-formed
  expression at namespace scope: the name is found, it is not an overload set of several
  functions (there is no target type to choose by), what it names has an address that
  can be taken, and it is accessible there. The signature of a method plays no part.
\<close>

definition address_of_member :: "decl \<Rightarrow> string \<Rightarrow> bool" where
  "address_of_member d n =
    (case lookup d n of
       [sm] \<Rightarrow> addressable (m_kind (snd sm)) \<and> accessible At_namespace sm
     | _ \<Rightarrow> False)"

subsection \<open>Capability introspection (lines 23 to 41)\<close>

text \<open>The partial specialisation is chosen when its \<open>void_t\<close> argument is well
  formed, the primary template (\<open>false_type\<close>) otherwise.\<close>

definition has_notified :: "decl \<Rightarrow> bool" where
  "has_notified d = address_of_member d ''notified''"

definition has_finaliser :: "decl \<Rightarrow> bool" where
  "has_finaliser d = address_of_member d ''finaliser''"

definition has_destructor :: "decl \<Rightarrow> bool" where
  "has_destructor d = (\<not> trivially_destructible d)"

text \<open>The member names the claims speak of: what \<open>T\<close> itself declares.\<close>

definition declares :: "decl \<Rightarrow> string \<Rightarrow> bool" where
  "declares d n = (named n (members d) \<noteq> [])"

definition has_member :: "decl \<Rightarrow> string \<Rightarrow> bool" where
  "has_member d n = (lookup d n \<noteq> [])"

subsection \<open>Calls from the trampolines\<close>

datatype compile_error =
    Static_assert_failed string
  | No_matching_function string
  | Ambiguous_call string
  | Inaccessible_member string
  | Deleted_function string

text \<open>
  Implicit conversion sequences from an argument to a parameter: binding a reference,
  copying, adding \<open>const\<close> behind the pointer, and the conversions of a pointer to
  \<open>void*\<close> and to \<open>bool\<close>.
\<close>

datatype ics =
    Identity | Bind_ref | Bind_const_ref | Qualification_adjustment
  | To_void_ptr | To_const_void_ptr | To_bool

fun strip_default :: "ctype \<Rightarrow> ctype" where
  "strip_default (Defaulted p) = strip_default p"
| "strip_default p = p"

fun is_defaulted :: "ctype \<Rightarrow> bool" where
  "is_defaulted (Defaulted p) = True"
| "is_defaulted p = False"

definition conversion :: "ctype \<Rightarrow> ctype \<Rightarrow> ics option" where
  "conversion a p =
    (case (a, strip_default p) of
       (Object_ptr, Object_ptr) \<Rightarrow> Some Identity
     | (Object_ptr, Const_Object_ptr) \<Rightarrow> Some Qualification_adjustment
     | (Object_ptr, Void_ptr) \<Rightarrow> Some To_void_ptr
     | (Object_ptr, Const_void_ptr) \<Rightarrow> Some To_const_void_ptr
     | (Object_ptr, Bool_type) \<Rightarrow> Some To_bool
     | (ObjectStack_ref, ObjectStack_ref) \<Rightarrow> Some Bind_ref
     | (ObjectStack_ref, Const_ObjectStack_ref) \<Rightarrow> Some Bind_const_ref
     | (ObjectStack_ref, ObjectStack_value) \<Rightarrow> Some Identity
     | (Size_t, Size_t) \<Rightarrow> Some Identity
     | _ \<Rightarrow> None)"

fun parameters :: "member_kind \<Rightarrow> ctype list option" where
  "parameters (Method ps) = Some ps"
| "parameters (Const_method ps) = Some ps"
| "parameters (Static_method ps) = Some ps"
| "parameters (Deleted_method ps) = Some ps"
| "parameters k = None"

text \<open>The conversions a function needs to take the arguments: every argument converts to
  its parameter and every parameter beyond the arguments has a default.\<close>

definition conversions :: "ctype list \<Rightarrow> member_kind \<Rightarrow> ics list option" where
  "conversions args k =
    (case parameters k of
       None \<Rightarrow> None
     | Some ps \<Rightarrow>
         if length args \<le> length ps \<and> list_all is_defaulted (drop (length args) ps)
         then those (map2 conversion args ps)
         else None)"

definition viable :: "ctype list \<Rightarrow> scope \<times> member_decl \<Rightarrow> bool" where
  "viable args sm = (conversions args (m_kind (snd sm)) \<noteq> None)"

text \<open>
  Ranking. A conversion of exact-match rank is better than a pointer conversion; binding
  \<open>T&\<close> is better than binding \<open>const T&\<close>; no conversion at all is better than
  adding \<open>const\<close>; \<open>void*\<close> is better than \<open>const void*\<close>, and either is
  better than \<open>bool\<close>.
\<close>

fun exact_match :: "ics \<Rightarrow> bool" where
  "exact_match To_void_ptr = False"
| "exact_match To_const_void_ptr = False"
| "exact_match To_bool = False"
| "exact_match c = True"

definition better_ics :: "ics \<Rightarrow> ics \<Rightarrow> bool" where
  "better_ics a b =
    ((exact_match a \<and> \<not> exact_match b) \<or>
     (a = Bind_ref \<and> b = Bind_const_ref) \<or>
     ((a = Identity \<or> a = Bind_ref \<or> a = Bind_const_ref) \<and> b = Qualification_adjustment) \<or>
     (a = To_void_ptr \<and> b = To_const_void_ptr) \<or>
     ((a = To_void_ptr \<or> a = To_const_void_ptr) \<and> b = To_bool))"

text \<open>The object a member function is called on is the non-const \<open>*(T*)o\<close>: a
  function without \<open>const\<close> binds it better than one with; a static function does
  not take it.\<close>

definition better_object :: "member_kind \<Rightarrow> member_kind \<Rightarrow> bool" where
  "better_object k1 k2 =
    (case (k1, k2) of (Method ps, Const_method qs) \<Rightarrow> True | _ \<Rightarrow> False)"

text \<open>One candidate is better than another when it is worse in no argument and better in
  one.\<close>

definition better_candidate :: "ctype list \<Rightarrow> scope \<times> member_decl \<Rightarrow> scope \<times> member_decl \<Rightarrow> bool" where
  "better_candidate args c1 c2 =
    (case (conversions args (m_kind (snd c1)), conversions args (m_kind (snd c2))) of
       (Some l1, Some l2) \<Rightarrow>
         \<not> list_ex (\<lambda>(x, y). better_ics y x) (zip l1 l2) \<and>
         \<not> better_object (m_kind (snd c2)) (m_kind (snd c1)) \<and>
         (list_ex (\<lambda>(x, y). better_ics x y) (zip l1 l2) \<or>
          better_object (m_kind (snd c1)) (m_kind (snd c2)))
     | _ \<Rightarrow> False)"

fun is_deleted :: "member_kind \<Rightarrow> bool" where
  "is_deleted (Deleted_method ps) = True"
| "is_deleted k = False"

text \<open>
  A call of the name \<open>n\<close> with the arguments: lookup in \<open>T\<close>, the viable
  candidates, the one that is better than every other, and then the checks of the
  function chosen: it is not deleted and it is accessible where the call is written.
\<close>

definition resolve_at ::
  "use_site \<Rightarrow> decl \<Rightarrow> string \<Rightarrow> ctype list \<Rightarrow> compile_error + scope \<times> member_decl" where
  "resolve_at site d n args =
    (let vs = filter (viable args) (lookup d n)
     in if vs = [] then Inl (No_matching_function n)
        else case filter (\<lambda>c. list_all (\<lambda>c'. c' = c \<or> better_candidate args c c') vs) vs of
               [sm] \<Rightarrow>
                 if is_deleted (m_kind (snd sm)) then Inl (Deleted_function n)
                 else if accessible site sm then Inr sm
                 else Inl (Inaccessible_member n)
             | _ \<Rightarrow> Inl (Ambiguous_call n))"

text \<open>The call \<open>((T*)o)->n(args)\<close> written inside \<open>V\<close>.\<close>

definition resolve_call :: "decl \<Rightarrow> string \<Rightarrow> ctype list \<Rightarrow> compile_error + scope \<times> member_decl" where
  "resolve_call d n args = resolve_at Inside_V d n args"

subsection \<open>Run-time values and the user's code\<close>

datatype ptr = Ptr nat

datatype ObjectStack = ObjectStack_at nat

datatype arg = Arg_object ptr | Arg_stack ObjectStack

text \<open>What the bodies of the user's methods and destructor do to the world is theirs to
  say; the header only calls them.\<close>

record 'w user_code =
  method_body :: "scope \<times> member_decl \<Rightarrow> ptr \<Rightarrow> arg list \<Rightarrow> 'w \<Rightarrow> 'w"
  destructor_body :: "ptr \<Rightarrow> 'w \<Rightarrow> 'w"

text \<open>\<open>void trace(ObjectStack&) {}\<close> (line 89).\<close>

definition V_trace :: "ptr \<Rightarrow> ObjectStack \<Rightarrow> 'w \<Rightarrow> 'w" where
  "V_trace self st w = w"

text \<open>Running the member a call resolved to. Of the members of \<open>V\<close> only \<open>trace\<close>
  has a name the trampolines call.\<close>

fun invoke_member :: "'w user_code \<Rightarrow> scope \<times> member_decl \<Rightarrow> ptr \<Rightarrow> arg list \<Rightarrow> 'w \<Rightarrow> 'w" where
  "invoke_member U (In_V, m) self [Arg_stack st] w = V_trace self st w"
| "invoke_member U sm self args w = method_body U sm self args w"

subsection \<open>The trampolines (lines 60 to 80)\<close>

definition gc_trace :: "'w user_code \<Rightarrow> decl \<Rightarrow> compile_error + (ptr \<Rightarrow> ObjectStack \<Rightarrow> 'w \<Rightarrow> 'w)" where
  "gc_trace U d =
    (case resolve_call d ''trace'' [ObjectStack_ref] of
       Inl e \<Rightarrow> Inl e
     | Inr sm \<Rightarrow> Inr (\<lambda>obj st w. invoke_member U sm obj [Arg_stack st] w))"

definition gc_notified :: "'w user_code \<Rightarrow> decl \<Rightarrow> compile_error + (ptr \<Rightarrow> 'w \<Rightarrow> 'w)" where
  "gc_notified U d =
    (if has_notified d then
       (case resolve_call d ''notified'' [Object_ptr] of
          Inl e \<Rightarrow> Inl e
        | Inr sm \<Rightarrow> Inr (\<lambda>obj w. invoke_member U sm obj [Arg_object obj] w))
     else Inr (\<lambda>obj w. w))"

definition gc_final ::
  "'w user_code \<Rightarrow> decl \<Rightarrow> compile_error + (ptr \<Rightarrow> ptr \<Rightarrow> ObjectStack \<Rightarrow> 'w \<Rightarrow> 'w)" where
  "gc_final U d =
    (if has_finaliser d then
       (case resolve_call d ''finaliser'' [Object_ptr, ObjectStack_ref] of
          Inl e \<Rightarrow> Inl e
        | Inr sm \<Rightarrow>
            Inr (\<lambda>obj region sub_regions w.
                   invoke_member U sm obj [Arg_object region, Arg_stack sub_regions] w))
     else Inr (\<lambda>obj region sub_regions w. w))"

definition gc_destructor :: "'w user_code \<Rightarrow> decl \<Rightarrow> compile_error + (ptr \<Rightarrow> 'w \<Rightarrow> 'w)" where
  "gc_destructor U d = Inr (\<lambda>obj w. destructor_body U obj w)"

subsection \<open>The descriptor (lines 82 to 87)\<close>

text \<open>A descriptor field holds a function pointer: \<open>None\<close> is \<open>nullptr\<close>, and a
  trampoline is known by its name.\<close>

datatype trampoline = Fn_gc_trace | Fn_gc_final | Fn_gc_notified | Fn_gc_destructor

record Descriptor =
  d_size :: nat
  d_trace :: "trampoline option"
  d_finaliser :: "trampoline option"
  d_notified :: "trampoline option"
  d_destructor :: "trampoline option"

definition desc :: "decl \<Rightarrow> Descriptor" where
  "desc d =
    \<lparr>d_size = vsizeof d,
     d_trace = Some Fn_gc_trace,
     d_finaliser = (if has_finaliser d then Some Fn_gc_final else None),
     d_notified = (if has_notified d then Some Fn_gc_notified else None),
     d_destructor = (if has_destructor d then Some Fn_gc_destructor else None)\<rparr>"

subsection \<open>Instantiating the class (lines 50 to 56)\<close>

definition static_asserts :: "decl \<Rightarrow> compile_error + unit" where
  "static_asserts d =
    (if \<not> (if Base d = Object then region_type d = Trace \<or> region_type d = Arena
            else region_type d = Cown_region)
     then Inl (Static_assert_failed [])
     else if \<not> (Base d = Object \<or> Base d = Cown)
     then Inl (Static_assert_failed ''V base must be Object or Cown'')
     else Inr ())"

text \<open>The body of a trampoline is compiled because the initialiser of \<open>desc\<close> names
  it. Only whether it compiles matters here, not the user's code.\<close>

definition and_then :: "compile_error + 'a \<Rightarrow> compile_error + 'b \<Rightarrow> compile_error + 'b" where
  "and_then r k = (case r of Inl e \<Rightarrow> Inl e | Inr x \<Rightarrow> k)"

definition no_code :: "unit user_code" where
  "no_code = \<lparr>method_body = (\<lambda>sm self args w. w), destructor_body = (\<lambda>self w. w)\<rparr>"

text \<open>A managed type: the declaration passes the assertions of the class and the four
  trampolines compile; then its descriptor is \<open>desc\<close>.\<close>

definition instantiate_V :: "decl \<Rightarrow> compile_error + Descriptor" where
  "instantiate_V d =
    and_then (static_asserts d)
      (and_then (gc_trace no_code d)
        (and_then (gc_final no_code d)
          (and_then (gc_notified no_code d)
            (and_then (gc_destructor no_code d)
              (Inr (desc d))))))"

subsection \<open>The collaborators\<close>

datatype Alloc = Alloc_at nat

datatype EpochMark = Epoch nat

text \<open>
  The functions of other headers that the entry points call, each a function on a world
  \<open>'w\<close> that only the collaborators interpret: \<open>ThreadAlloc::get()\<close>,
  \<open>Alloc::alloc<size>()\<close>, \<open>RegionClass::create<size>(alloc, desc)\<close>,
  \<open>RegionClass::alloc<size>(alloc, in, desc)\<close>, \<open>Object::register_object(p, desc)\<close>
  and \<open>Scheduler::alloc_epoch()\<close>. The region class is known by its
  \<open>RegionType\<close>, a descriptor's address by the descriptor.
\<close>

record 'w collaborators =
  ThreadAlloc_get :: "'w \<Rightarrow> Alloc \<times> 'w"
  Alloc_alloc :: "Alloc \<Rightarrow> nat \<Rightarrow> 'w \<Rightarrow> ptr \<times> 'w"
  RegionClass_create :: "RegionType \<Rightarrow> nat \<Rightarrow> Alloc \<Rightarrow> Descriptor \<Rightarrow> 'w \<Rightarrow> ptr \<times> 'w"
  RegionClass_alloc :: "RegionType \<Rightarrow> nat \<Rightarrow> Alloc \<Rightarrow> ptr \<Rightarrow> Descriptor \<Rightarrow> 'w \<Rightarrow> ptr \<times> 'w"
  Object_register_object :: "ptr \<Rightarrow> Descriptor \<Rightarrow> 'w \<Rightarrow> ptr \<times> 'w"
  Scheduler_alloc_epoch :: "'w \<Rightarrow> EpochMark \<times> 'w"

definition RegionClass :: "decl \<Rightarrow> RegionType" where
  "RegionClass d = region_type d"

subsection \<open>The allocation epoch (lines 91 to 94)\<close>

definition get_alloc_epoch :: "'w collaborators \<Rightarrow> 'w \<Rightarrow> EpochMark \<times> 'w" where
  "get_alloc_epoch E w = Scheduler_alloc_epoch E w"

subsection \<open>Allocation entry points (lines 99 to 129)\<close>

text \<open>Each is a member function of the instantiated class: using it compiles the class
  and the descriptor first, then the body. The first parameter is the unnamed
  \<open>size_t\<close>.\<close>

definition operator_new :: "'w collaborators \<Rightarrow> decl \<Rightarrow> compile_error + (nat \<Rightarrow> 'w \<Rightarrow> ptr \<times> 'w)" where
  "operator_new E d =
    and_then (instantiate_V d)
      (if Base d = Object then
         Inr (\<lambda>sz w. case ThreadAlloc_get E w of
                (a, w1) \<Rightarrow> RegionClass_create E (RegionClass d) (d_size (desc d)) a (desc d) w1)
       else
         Inr (\<lambda>sz w. case ThreadAlloc_get E w of
                (a, w1) \<Rightarrow> (case Alloc_alloc E a (d_size (desc d)) w1 of
                  (p, w2) \<Rightarrow> Object_register_object E p (desc d) w2)))"

definition operator_new_alloc ::
  "'w collaborators \<Rightarrow> decl \<Rightarrow> compile_error + (nat \<Rightarrow> Alloc \<Rightarrow> 'w \<Rightarrow> ptr \<times> 'w)" where
  "operator_new_alloc E d =
    and_then (instantiate_V d)
      (if Base d = Object then
         Inr (\<lambda>sz alloc w. RegionClass_create E (RegionClass d) (d_size (desc d)) alloc (desc d) w)
       else
         Inr (\<lambda>sz alloc w. case Alloc_alloc E alloc (d_size (desc d)) w of
                (p, w1) \<Rightarrow> Object_register_object E p (desc d) w1))"

definition operator_new_region ::
  "'w collaborators \<Rightarrow> decl \<Rightarrow> compile_error + (nat \<Rightarrow> ptr \<Rightarrow> 'w \<Rightarrow> ptr \<times> 'w)" where
  "operator_new_region E d =
    and_then (instantiate_V d)
      (if \<not> Base d = Object then Inl (Static_assert_failed ''Don't call on cowns.'')
       else
         Inr (\<lambda>sz region w. case ThreadAlloc_get E w of
                (a, w1) \<Rightarrow>
                  RegionClass_alloc E (RegionClass d) (d_size (desc d)) a region (desc d) w1))"

definition operator_new_alloc_region ::
  "'w collaborators \<Rightarrow> decl \<Rightarrow> compile_error + (nat \<Rightarrow> Alloc \<Rightarrow> ptr \<Rightarrow> 'w \<Rightarrow> ptr \<times> 'w)" where
  "operator_new_alloc_region E d =
    and_then (instantiate_V d)
      (if \<not> Base d = Object then Inl (Static_assert_failed ''Don't call on cowns.'')
       else
         Inr (\<lambda>sz alloc region w.
                RegionClass_alloc E (RegionClass d) (d_size (desc d)) alloc region (desc d) w))"

subsection \<open>Deallocation entry points (lines 131 to 164)\<close>

text \<open>The five forms, by their arguments: \<open>(void*)\<close>, \<open>(void*, size_t)\<close>,
  \<open>(void*, Alloc*)\<close>, \<open>(void*, Object*)\<close> and \<open>(void*, Alloc*, Object*)\<close>.
  Every body is empty.\<close>

datatype delete_args =
    Delete ptr
  | Delete_size ptr nat
  | Delete_alloc ptr Alloc
  | Delete_region ptr ptr
  | Delete_alloc_region ptr Alloc ptr

fun operator_delete :: "delete_args \<Rightarrow> 'w \<Rightarrow> 'w" where
  "operator_delete (Delete p) w = w"
| "operator_delete (Delete_size p sz) w = w"
| "operator_delete (Delete_alloc p alloc) w = w"
| "operator_delete (Delete_region p region) w = w"
| "operator_delete (Delete_alloc_region p alloc region) w = w"

subsection \<open>Array forms (lines 166 to 168)\<close>

text \<open>
  The three array forms are declared \<open>= delete\<close> in \<open>V\<close> (they are the deleted
  entries of \<open>V_members\<close>). Whether a program that allocates or deallocates an array
  of \<open>T\<close> compiles is decided by the expression it writes: \<open>new T[n]\<close> and
  \<open>delete[] p\<close> look the function up in the scope of \<open>T\<close>, where a declaration of
  \<open>T\<close> hides those of \<open>V\<close>; \<open>::new T[n]\<close> and \<open>::delete[] p\<close> use the
  global functions.
\<close>

datatype allocation_function = Global_function | Member_function "scope \<times> member_decl"

text \<open>The usual deallocation function among those found in a class: the one that takes
  only the pointer, else the one that takes the pointer and a size.\<close>

definition usual_deallocation :: "(scope \<times> member_decl) list \<Rightarrow> (scope \<times> member_decl) list" where
  "usual_deallocation found =
    (if filter (\<lambda>sm. parameters (m_kind (snd sm)) = Some [Void_ptr]) found \<noteq> []
     then filter (\<lambda>sm. parameters (m_kind (snd sm)) = Some [Void_ptr]) found
     else filter (\<lambda>sm. parameters (m_kind (snd sm)) = Some [Void_ptr, Size_t]) found)"

definition check_use :: "string \<Rightarrow> scope \<times> member_decl \<Rightarrow> compile_error + allocation_function" where
  "check_use n sm =
    (if is_deleted (m_kind (snd sm)) then Inl (Deleted_function n)
     else if accessible At_namespace sm then Inr (Member_function sm)
     else Inl (Inaccessible_member n))"

text \<open>\<open>delete[] p\<close> for \<open>p\<close> of type \<open>T*\<close>; the flag says whether the
  expression is written with \<open>::\<close>.\<close>

definition array_delete_expression :: "decl \<Rightarrow> bool \<Rightarrow> compile_error + allocation_function" where
  "array_delete_expression d global =
    and_then (static_asserts d)
      (if global \<or> lookup d ''operator delete[]'' = [] then Inr Global_function
       else case usual_deallocation (lookup d ''operator delete[]'') of
              [] \<Rightarrow> Inl (No_matching_function ''operator delete[]'')
            | sm # rest \<Rightarrow> check_use ''operator delete[]'' sm)"

text \<open>\<open>new T[n]\<close>: the allocation function is chosen by overload resolution on the
  size; the deallocation function that would release the storage if a constructor threw
  is looked up as well, and is used if there is one.\<close>

definition array_new_expression :: "decl \<Rightarrow> bool \<Rightarrow> compile_error + allocation_function" where
  "array_new_expression d global =
    and_then (static_asserts d)
      (if global \<or> lookup d ''operator new[]'' = [] then Inr Global_function
       else case resolve_at At_namespace d ''operator new[]'' [Size_t] of
              Inl e \<Rightarrow> Inl e
            | Inr sm \<Rightarrow>
                (case usual_deallocation (lookup d ''operator delete[]'') of
                   [] \<Rightarrow> Inr (Member_function sm)
                 | dm # rest \<Rightarrow>
                     and_then (check_use ''operator delete[]'' dm) (Inr (Member_function sm))))"

subsection \<open>Collaborators that record their calls\<close>

text \<open>An instance of the collaborators for concrete runs: the world is the list of the
  calls made so far, an allocation returns the next free address.\<close>

datatype event =
    Called_ThreadAlloc_get
  | Called_alloc Alloc nat
  | Called_create RegionType nat Alloc Descriptor
  | Called_region_alloc RegionType nat Alloc ptr Descriptor
  | Called_register_object ptr Descriptor
  | Called_alloc_epoch

definition recording :: "event list collaborators" where
  "recording =
    \<lparr>ThreadAlloc_get = (\<lambda>w. (Alloc_at 0, w @ [Called_ThreadAlloc_get])),
     Alloc_alloc = (\<lambda>a n w. (Ptr (length w), w @ [Called_alloc a n])),
     RegionClass_create = (\<lambda>rc n a D w. (Ptr (length w), w @ [Called_create rc n a D])),
     RegionClass_alloc = (\<lambda>rc n a r D w. (Ptr (length w), w @ [Called_region_alloc rc n a r D])),
     Object_register_object = (\<lambda>p D w. (p, w @ [Called_register_object p D])),
     Scheduler_alloc_epoch = (\<lambda>w. (Epoch 0, w @ [Called_alloc_epoch]))\<rparr>"

subsection \<open>User code that notes its calls\<close>

text \<open>The world is the list of the members called, each with its object and arguments;
  a destructor call is noted without a member.\<close>

definition noting :: "(member_decl option \<times> ptr \<times> arg list) list user_code" where
  "noting =
    \<lparr>method_body = (\<lambda>sm self args w. w @ [(Some (snd sm), self, args)]),
     destructor_body = (\<lambda>self w. w @ [(None, self, [])])\<rparr>"

subsection \<open>Some declarations\<close>

text \<open>\<open>struct Counter : V<Counter> { void trace(ObjectStack&); }\<close>, trivially
  destructible.\<close>

definition Counter :: decl where
  "Counter =
    \<lparr>members = [\<lparr>m_name = ''trace'', m_access = Public, m_kind = Method [ObjectStack_ref]\<rparr>],
     trivially_destructible = True, vsizeof = 16, region_type = Trace, Base = Object,
     Base_members = []\<rparr>"

text \<open>\<open>struct Actor : VCown<Actor> { void trace(ObjectStack&); void notified(Object*); }\<close>.\<close>

definition Actor :: decl where
  "Actor =
    \<lparr>members = [\<lparr>m_name = ''trace'', m_access = Public, m_kind = Method [ObjectStack_ref]\<rparr>,
                \<lparr>m_name = ''notified'', m_access = Public, m_kind = Method [Object_ptr]\<rparr>],
     trivially_destructible = True, vsizeof = 24, region_type = Cown_region, Base = Cown,
     Base_members = []\<rparr>"

text \<open>\<open>struct Bare : V<Bare> {}\<close>: no members at all.\<close>

definition Bare :: decl where
  "Bare =
    \<lparr>members = [], trivially_destructible = True, vsizeof = 8, region_type = Trace,
     Base = Object, Base_members = []\<rparr>"

text \<open>
  \<open>struct Overloaded : V<Overloaded> { void trace(ObjectStack&);
  void notified(Object*); void notified(int);
  void finaliser(Object*, ObjectStack&); void finaliser(); }\<close>:
  two public overloads of each optional member.
\<close>

definition Overloaded :: decl where
  "Overloaded =
    \<lparr>members = [\<lparr>m_name = ''trace'', m_access = Public, m_kind = Method [ObjectStack_ref]\<rparr>,
                \<lparr>m_name = ''notified'', m_access = Public, m_kind = Method [Object_ptr]\<rparr>,
                \<lparr>m_name = ''notified'', m_access = Public, m_kind = Method [Other_type ''int'']\<rparr>,
                \<lparr>m_name = ''finaliser'', m_access = Public,
                  m_kind = Method [Object_ptr, ObjectStack_ref]\<rparr>,
                \<lparr>m_name = ''finaliser'', m_access = Public, m_kind = Method []\<rparr>],
     trivially_destructible = True, vsizeof = 16, region_type = Trace, Base = Object,
     Base_members = []\<rparr>"

text \<open>
  \<open>struct Tracer : V<Tracer> { void trace(int); void trace(const ObjectStack&) const;
  void trace(ObjectStack&) const; void trace(ObjectStack&); }\<close>: four overloads of
  \<open>trace\<close>, of which the call in \<open>gc_trace\<close> selects the last.
\<close>

definition Tracer :: decl where
  "Tracer =
    \<lparr>members = [\<lparr>m_name = ''trace'', m_access = Public, m_kind = Method [Other_type ''int'']\<rparr>,
                \<lparr>m_name = ''trace'', m_access = Public,
                  m_kind = Const_method [Const_ObjectStack_ref]\<rparr>,
                \<lparr>m_name = ''trace'', m_access = Public, m_kind = Const_method [ObjectStack_ref]\<rparr>,
                \<lparr>m_name = ''trace'', m_access = Public, m_kind = Method [ObjectStack_ref]\<rparr>],
     trivially_destructible = True, vsizeof = 16, region_type = Trace, Base = Object,
     Base_members = []\<rparr>"

text \<open>
  \<open>struct Pooled : V<Pooled> { void trace(ObjectStack&) const;
  static void* operator new[](size_t); static void operator delete[](void*); }\<close>:
  array forms of its own.
\<close>

definition Pooled :: decl where
  "Pooled =
    \<lparr>members = [\<lparr>m_name = ''trace'', m_access = Public, m_kind = Const_method [ObjectStack_ref]\<rparr>,
                \<lparr>m_name = ''operator new[]'', m_access = Public, m_kind = Static_method [Size_t]\<rparr>,
                \<lparr>m_name = ''operator delete[]'', m_access = Public,
                  m_kind = Static_method [Void_ptr]\<rparr>],
     trivially_destructible = True, vsizeof = 16, region_type = Trace, Base = Object,
     Base_members = []\<rparr>"

text \<open>\<open>Counter\<close> over the wrong base, and with the wrong discipline.\<close>

definition Mismatched :: decl where
  "Mismatched = Counter\<lparr>Base := Cown\<rparr>"

definition Swapped :: decl where
  "Swapped = Counter\<lparr>region_type := Cown_region\<rparr>"

section \<open>Properties\<close>

subsection \<open>Compile errors in sequence\<close>

lemma and_then_Inr: "and_then r k = Inr x \<longleftrightarrow> (\<exists>y. r = Inr y) \<and> k = Inr x"
  by (cases r) (simp_all add: and_then_def)

lemma static_asserts_Inr:
  "static_asserts d = Inr u \<longleftrightarrow>
     (Base d = Object \<and> (region_type d = Trace \<or> region_type d = Arena)) \<or>
     (Base d = Cown \<and> region_type d = Cown_region)"
  by (auto simp: static_asserts_def)

lemma static_asserts_Inl:
  "static_asserts d = Inl e \<Longrightarrow> \<exists>m. e = Static_assert_failed m"
  by (auto simp: static_asserts_def split: if_splits)

lemma gc_trace_Inr:
  "(\<exists>f. gc_trace U d = Inr f) \<longleftrightarrow> (\<exists>sm. resolve_call d ''trace'' [ObjectStack_ref] = Inr sm)"
  by (auto simp: gc_trace_def split: sum.splits)

lemma instantiate_V_Inr:
  assumes "instantiate_V d = Inr D"
  shows "D = desc d" and "\<exists>u. static_asserts d = Inr u"
    and "\<exists>sm. resolve_call d ''trace'' [ObjectStack_ref] = Inr sm"
  using assms gc_trace_Inr [of no_code d]
  by (auto simp: instantiate_V_def and_then_Inr)

lemma managed_base: "instantiate_V d = Inr D \<Longrightarrow> Base d = Object \<or> Base d = Cown"
  using instantiate_V_Inr(2) [of d D] by (auto simp: static_asserts_Inr)

lemma desc_size: "d_size (desc d) = vsizeof d"
  by (simp add: desc_def)

subsection \<open>Calls resolve to members that lookup finds\<close>

lemma resolve_at_Inr:
  assumes "resolve_at site d n args = Inr sm"
  shows "sm \<in> set (lookup d n)" and "viable args sm" and "\<not> is_deleted (m_kind (snd sm))"
    and "accessible site sm"
    and "list_all (\<lambda>c. c = sm \<or> better_candidate args sm c) (filter (viable args) (lookup d n))"
proof -
  define vs where "vs = filter (viable args) (lookup d n)"
  define best where
    "best = filter (\<lambda>c. list_all (\<lambda>c'. c' = c \<or> better_candidate args c c') vs) vs"
  from assms have b: "best = [sm]" and nd: "\<not> is_deleted (m_kind (snd sm))"
    and acc: "accessible site sm"
    unfolding resolve_at_def Let_def vs_def [symmetric] best_def [symmetric]
    by (auto split: list.splits if_splits)
  from b have "sm \<in> set best" by simp
  then have v: "sm \<in> set vs"
    and l: "list_all (\<lambda>c. c = sm \<or> better_candidate args sm c) vs"
    by (simp_all add: best_def)
  from v show "sm \<in> set (lookup d n)" and "viable args sm"
    by (simp_all add: vs_def)
  from nd show "\<not> is_deleted (m_kind (snd sm))" .
  from acc show "accessible site sm" .
  from l show "list_all (\<lambda>c. c = sm \<or> better_candidate args sm c) (filter (viable args) (lookup d n))"
    by (simp add: vs_def)
qed

lemma lookup_trace_undeclared:
  "\<not> declares d ''trace'' \<Longrightarrow>
     lookup d ''trace'' =
       [(In_V, \<lparr>m_name = ''trace'', m_access = Private, m_kind = Method [ObjectStack_ref]\<rparr>)]"
  by (simp add: declares_def lookup_def named_def V_members_def)

lemma resolve_trace_undeclared:
  "\<not> declares d ''trace'' \<Longrightarrow>
     resolve_call d ''trace'' [ObjectStack_ref] =
       Inr (In_V, \<lparr>m_name = ''trace'', m_access = Private, m_kind = Method [ObjectStack_ref]\<rparr>)"
  by (simp add: resolve_call_def resolve_at_def lookup_trace_undeclared viable_def
      conversions_def conversion_def)

lemma lookup_name: "sm \<in> set (lookup d n) \<Longrightarrow> m_name (snd sm) = n"
  by (auto simp: lookup_def named_def split: if_splits)

lemma viable_parameters: "viable args sm \<Longrightarrow> \<exists>ps. parameters (m_kind (snd sm)) = Some ps"
  by (auto simp: viable_def conversions_def split: option.splits)

lemma lookup_new_array_undeclared:
  "\<not> declares d ''operator new[]'' \<Longrightarrow>
     lookup d ''operator new[]'' =
       [(In_V, \<lparr>m_name = ''operator new[]'', m_access = Public, m_kind = Deleted_method [Size_t]\<rparr>)]"
  by (simp add: declares_def lookup_def named_def V_members_def)

lemma lookup_delete_array_undeclared:
  "\<not> declares d ''operator delete[]'' \<Longrightarrow>
     lookup d ''operator delete[]'' =
       [(In_V, \<lparr>m_name = ''operator delete[]'', m_access = Public,
                m_kind = Deleted_method [Void_ptr]\<rparr>),
        (In_V, \<lparr>m_name = ''operator delete[]'', m_access = Public,
                m_kind = Deleted_method [Void_ptr, Size_t]\<rparr>)]"
  by (simp add: declares_def lookup_def named_def V_members_def)

subsection \<open>The example declarations compile\<close>

lemmas eval_defs = instantiate_V_def static_asserts_def and_then_def gc_trace_def gc_final_def
  gc_notified_def gc_destructor_def resolve_call_def resolve_at_def lookup_def named_def
  viable_def conversions_def conversion_def better_candidate_def better_ics_def
  better_object_def has_finaliser_def has_notified_def has_destructor_def
  address_of_member_def V_members_def desc_def declares_def has_member_def

lemma Counter_ok: "instantiate_V Counter = Inr (desc Counter)"
  by (simp add: eval_defs Counter_def)

lemma Actor_ok: "instantiate_V Actor = Inr (desc Actor)"
  by (simp add: eval_defs Actor_def)

lemma Bare_ok: "instantiate_V Bare = Inr (desc Bare)"
  by (simp add: eval_defs Bare_def)

lemma Tracer_ok: "instantiate_V Tracer = Inr (desc Tracer)"
  by (simp add: eval_defs Tracer_def)

lemma Pooled_ok: "instantiate_V Pooled = Inr (desc Pooled)"
  by (simp add: eval_defs Pooled_def)

lemma Counter_fields:
  "Base Counter = Object" "region_type Counter = Trace" "vsizeof Counter = 16"
  by (simp_all add: Counter_def)

lemma Actor_fields: "Base Actor = Cown" "vsizeof Actor = 24"
  by (simp_all add: Actor_def)

subsection \<open>What the descriptor and the capability predicates do establish\<close>

lemma desc_follows_capabilities:
  "(d_finaliser (desc d) = None \<longleftrightarrow> \<not> has_finaliser d) \<and>
   (d_finaliser (desc d) \<noteq> None \<longleftrightarrow> d_finaliser (desc d) = Some Fn_gc_final) \<and>
   (d_notified (desc d) = None \<longleftrightarrow> \<not> has_notified d) \<and>
   (d_notified (desc d) \<noteq> None \<longleftrightarrow> d_notified (desc d) = Some Fn_gc_notified) \<and>
   (d_destructor (desc d) = None \<longleftrightarrow> trivially_destructible d) \<and>
   (d_destructor (desc d) \<noteq> None \<longleftrightarrow> d_destructor (desc d) = Some Fn_gc_destructor)"
  by (simp add: desc_def has_destructor_def)

lemma undeclared_not_detected:
  "\<not> declares d n \<Longrightarrow> named n V_members = [] \<Longrightarrow> named n (Base_members d) = [] \<Longrightarrow>
     \<not> address_of_member d n"
  by (simp add: address_of_member_def lookup_def declares_def)

lemma single_public_method_detected:
  "named n (members d) = [m] \<Longrightarrow> m_access m = Public \<Longrightarrow> m_kind m = Method ps \<Longrightarrow>
     address_of_member d n"
  by (simp add: address_of_member_def lookup_def)

subsection \<open>The descriptor\<close>

text \<open>
  Claim C1 says that the finaliser and notified fields are null exactly when \<open>T\<close> has
  no member of that name. The fields follow the capability predicates
  (\<open>desc_follows_capabilities\<close>), and the predicates miss a name that is overloaded:
  \<open>Overloaded\<close> is a managed type that has members named \<open>finaliser\<close> and
  \<open>notified\<close>, and both fields of its descriptor are null.
\<close>

theorem desc_fields_null_for_overloaded_members:
  "instantiate_V Overloaded = Inr (desc Overloaded) \<and>
   has_member Overloaded ''finaliser'' \<and> d_finaliser (desc Overloaded) = None \<and>
   has_member Overloaded ''notified'' \<and> d_notified (desc Overloaded) = None"
  by (simp add: eval_defs Overloaded_def)

text \<open>
  Claim C2: for every managed type the trace field of the descriptor is not null. It is
  the trampoline \<open>gc_trace\<close>, which compiles for a managed type and passes the object
  and the worklist on to the function that the call \<open>((T*)o)->trace(st)\<close> selects:
  a member function named \<open>trace\<close> found by lookup in \<open>T\<close>, not deleted, that takes
  the worklist, is accessible inside \<open>V\<close>, and is better than every other overload
  of \<open>trace\<close> that takes the worklist.
\<close>

theorem trace_field_is_trampoline:
  assumes "instantiate_V d = Inr D"
  shows "d_trace D = Some Fn_gc_trace \<and>
    (\<exists>sm ps. resolve_call d ''trace'' [ObjectStack_ref] = Inr sm \<and>
       sm \<in> set (lookup d ''trace'') \<and> m_name (snd sm) = ''trace'' \<and>
       parameters (m_kind (snd sm)) = Some ps \<and> \<not> is_deleted (m_kind (snd sm)) \<and>
       viable [ObjectStack_ref] sm \<and> accessible Inside_V sm \<and>
       list_all (\<lambda>c. c = sm \<or> better_candidate [ObjectStack_ref] sm c)
         (filter (viable [ObjectStack_ref]) (lookup d ''trace'')) \<and>
       gc_trace U d = Inr (\<lambda>obj st w. invoke_member U sm obj [Arg_stack st] w))"
proof -
  from instantiate_V_Inr [OF assms] obtain sm where D: "D = desc d"
    and r: "resolve_call d ''trace'' [ObjectStack_ref] = Inr sm"
    by blast
  from r have r': "resolve_at Inside_V d ''trace'' [ObjectStack_ref] = Inr sm"
    by (simp add: resolve_call_def)
  note sel = resolve_at_Inr [OF r']
  from viable_parameters [OF sel(2)] obtain ps
    where ps: "parameters (m_kind (snd sm)) = Some ps" ..
  have "d_trace D = Some Fn_gc_trace"
    by (simp add: D desc_def)
  moreover have "m_name (snd sm) = ''trace''"
    using sel(1) by (rule lookup_name)
  moreover have "gc_trace U d = Inr (\<lambda>obj st w. invoke_member U sm obj [Arg_stack st] w)"
    by (simp add: gc_trace_def r)
  ultimately show ?thesis
    using r sel ps by blast
qed

theorem trace_field_is_trampoline_witness:
  "instantiate_V Tracer = Inr (desc Tracer) \<and> d_trace (desc Tracer) = Some Fn_gc_trace \<and>
   (\<exists>f. gc_trace noting Tracer = Inr f \<and>
        f (Ptr 1) (ObjectStack_at 0) [] =
          [(Some \<lparr>m_name = ''trace'', m_access = Public, m_kind = Method [ObjectStack_ref]\<rparr>,
            Ptr 1, [Arg_stack (ObjectStack_at 0)])]) \<and>
   instantiate_V Counter = Inr (desc Counter) \<and> d_trace (desc Counter) = Some Fn_gc_trace \<and>
   (\<exists>f. gc_trace noting Counter = Inr f \<and>
        f (Ptr 2) (ObjectStack_at 0) [] =
          [(Some \<lparr>m_name = ''trace'', m_access = Public, m_kind = Method [ObjectStack_ref]\<rparr>,
            Ptr 2, [Arg_stack (ObjectStack_at 0)])])"
proof -
  have rt: "resolve_call Tracer ''trace'' [ObjectStack_ref] =
      Inr (In_T, \<lparr>m_name = ''trace'', m_access = Public, m_kind = Method [ObjectStack_ref]\<rparr>)"
    by (simp add: eval_defs Tracer_def)
  have rc: "resolve_call Counter ''trace'' [ObjectStack_ref] =
      Inr (In_T, \<lparr>m_name = ''trace'', m_access = Public, m_kind = Method [ObjectStack_ref]\<rparr>)"
    by (simp add: eval_defs Counter_def)
  from trace_field_is_trampoline [OF Tracer_ok, of noting] obtain sm
    where t: "d_trace (desc Tracer) = Some Fn_gc_trace"
      and sm: "resolve_call Tracer ''trace'' [ObjectStack_ref] = Inr sm"
      and g: "gc_trace noting Tracer =
                Inr (\<lambda>obj st w. invoke_member noting sm obj [Arg_stack st] w)"
    by blast
  from trace_field_is_trampoline [OF Counter_ok, of noting] obtain sm'
    where t': "d_trace (desc Counter) = Some Fn_gc_trace"
      and sm': "resolve_call Counter ''trace'' [ObjectStack_ref] = Inr sm'"
      and g': "gc_trace noting Counter =
                Inr (\<lambda>obj st w. invoke_member noting sm' obj [Arg_stack st] w)"
    by blast
  from sm rt sm' rc
  have "sm = (In_T, \<lparr>m_name = ''trace'', m_access = Public, m_kind = Method [ObjectStack_ref]\<rparr>)"
    and "sm' = (In_T, \<lparr>m_name = ''trace'', m_access = Public, m_kind = Method [ObjectStack_ref]\<rparr>)"
    by simp_all
  with g t g' t' Tracer_ok Counter_ok show ?thesis
    by (simp add: noting_def)
qed

text \<open>
  Claim C10: a type that declares no \<open>trace\<close> member still compiles. The call in
  \<open>gc_trace\<close> then resolves to the private no-op \<open>trace\<close> of the wrapper, so the
  trampoline leaves the world, and with it the worklist, as it was; the trace field is
  that trampoline; and whether the type is a managed type depends only on the class
  assertions and the other trampolines.
\<close>

theorem undeclared_trace_falls_back:
  assumes "\<not> declares d ''trace''"
  shows "gc_trace U d = Inr (\<lambda>obj st w. w) \<and>
     d_trace (desc d) = Some Fn_gc_trace \<and>
     instantiate_V d =
       and_then (static_asserts d)
         (and_then (gc_final no_code d) (and_then (gc_notified no_code d) (Inr (desc d))))"
proof -
  have g: "\<And>U::'b user_code. gc_trace U d = Inr (\<lambda>obj st w. w)"
    by (simp add: gc_trace_def resolve_trace_undeclared [OF assms] V_trace_def fun_eq_iff)
  have "d_trace (desc d) = Some Fn_gc_trace"
    by (simp add: desc_def)
  moreover have "instantiate_V d =
       and_then (static_asserts d)
         (and_then (gc_final no_code d) (and_then (gc_notified no_code d) (Inr (desc d))))"
    by (simp add: instantiate_V_def g gc_destructor_def and_then_def)
  ultimately show ?thesis using g by simp
qed

theorem undeclared_trace_falls_back_witness:
  "\<not> declares Bare ''trace'' \<and> instantiate_V Bare = Inr (desc Bare) \<and>
   d_trace (desc Bare) = Some Fn_gc_trace \<and>
   (\<exists>f. gc_trace noting Bare = Inr f \<and> f (Ptr 1) (ObjectStack_at 0) [] = [])"
proof -
  have h: "\<not> declares Bare ''trace''"
    by (simp add: declares_def named_def Bare_def)
  show ?thesis
    using h undeclared_trace_falls_back [OF h, of noting] by (simp add: Bare_ok)
qed

subsection \<open>Capability introspection\<close>

text \<open>
  Claim C3 says that \<open>has_notified\<close> and \<open>has_finaliser\<close> are true exactly when
  \<open>T\<close> declares a member of that name. A single public method is detected whatever
  its signature (\<open>single_public_method_detected\<close>), but \<open>Overloaded\<close> declares
  members of both names and both predicates are false on it.
\<close>

theorem capability_predicates_miss_overloaded_members:
  "declares Overloaded ''notified'' \<and> \<not> has_notified Overloaded \<and>
   declares Overloaded ''finaliser'' \<and> \<not> has_finaliser Overloaded"
  by (simp add: eval_defs Overloaded_def)

subsection \<open>Well-formedness of the class\<close>

text \<open>
  Claim C6: the class assertions hold exactly when the base is \<open>Object\<close> with the trace
  or arena discipline, or \<open>Cown\<close> with the ownership-cell discipline. A trace or arena
  discipline over another base, the ownership-cell discipline over a base that is not
  \<open>Cown\<close>, and any base other than the two are rejected by a static assertion: the
  class does not instantiate and no allocation entry point has a run-time function.
\<close>

theorem static_asserts_reject_mismatch:
  "((\<exists>u. static_asserts d = Inr u) \<longleftrightarrow>
      (Base d = Object \<and> (region_type d = Trace \<or> region_type d = Arena)) \<or>
      (Base d = Cown \<and> region_type d = Cown_region)) \<and>
   (((region_type d = Trace \<or> region_type d = Arena) \<and> Base d \<noteq> Object) \<or>
    (region_type d = Cown_region \<and> Base d \<noteq> Cown) \<or>
    (Base d \<noteq> Object \<and> Base d \<noteq> Cown) \<longrightarrow>
      (\<exists>m. instantiate_V d = Inl (Static_assert_failed m) \<and>
           operator_new E d = Inl (Static_assert_failed m) \<and>
           operator_new_alloc E d = Inl (Static_assert_failed m) \<and>
           operator_new_region E d = Inl (Static_assert_failed m) \<and>
           operator_new_alloc_region E d = Inl (Static_assert_failed m)))"
proof -
  have 1: "(\<exists>u. static_asserts d = Inr u) \<longleftrightarrow>
      (Base d = Object \<and> (region_type d = Trace \<or> region_type d = Arena)) \<or>
      (Base d = Cown \<and> region_type d = Cown_region)"
    by (simp add: static_asserts_Inr)
  have 2: "\<exists>m. instantiate_V d = Inl (Static_assert_failed m) \<and>
           operator_new E d = Inl (Static_assert_failed m) \<and>
           operator_new_alloc E d = Inl (Static_assert_failed m) \<and>
           operator_new_region E d = Inl (Static_assert_failed m) \<and>
           operator_new_alloc_region E d = Inl (Static_assert_failed m)"
    if "\<not> (\<exists>u. static_asserts d = Inr u)"
  proof -
    from that obtain e where e: "static_asserts d = Inl e"
      by (cases "static_asserts d") auto
    then obtain m where m: "e = Static_assert_failed m"
      using static_asserts_Inl by blast
    have "instantiate_V d = Inl e"
      by (simp add: instantiate_V_def and_then_def e)
    then show ?thesis
      by (simp add: m operator_new_def operator_new_alloc_def operator_new_region_def
          operator_new_alloc_region_def and_then_def)
  qed
  show ?thesis using 1 2 by auto
qed

theorem static_asserts_reject_mismatch_witness:
  "region_type Mismatched = Trace \<and> Base Mismatched = Cown \<and>
   instantiate_V Mismatched = Inl (Static_assert_failed []) \<and>
   operator_new recording Mismatched = Inl (Static_assert_failed []) \<and>
   region_type Swapped = Cown_region \<and> Base Swapped = Object \<and>
   instantiate_V Swapped = Inl (Static_assert_failed []) \<and>
   operator_new recording Swapped = Inl (Static_assert_failed []) \<and>
   (\<exists>u. static_asserts Counter = Inr u)"
proof -
  have m: "region_type Mismatched = Trace" "Base Mismatched = Cown"
    by (simp_all add: Mismatched_def Counter_def)
  have s: "region_type Swapped = Cown_region" "Base Swapped = Object"
    by (simp_all add: Swapped_def Counter_def)
  have im: "instantiate_V Mismatched = Inl (Static_assert_failed [])"
    by (simp add: instantiate_V_def static_asserts_def and_then_def m)
  have isw: "instantiate_V Swapped = Inl (Static_assert_failed [])"
    by (simp add: instantiate_V_def static_asserts_def and_then_def s)
  from static_asserts_reject_mismatch [of Mismatched recording]
    static_asserts_reject_mismatch [of Swapped recording]
    static_asserts_reject_mismatch [of Counter recording]
  show ?thesis
    by (simp add: m s Counter_fields im isw)
qed

subsection \<open>Allocation routing\<close>

text \<open>
  Claim C4: for a managed type the no-argument entry point fetches the current-thread
  allocator and then does what the allocator-handle entry point does with the allocator
  it is given. That is: over the plain-object base, create a region of the type's region
  class for the object; over the ownership-cell base, allocate the storage from the
  allocator and register it with \<open>Object::register_object\<close>. Both are given the
  type's descriptor and size.
\<close>

theorem operator_new_routing:
  assumes "instantiate_V d = Inr D"
  shows "(Base d = Object \<or> Base d = Cown) \<and>
    (\<exists>f g. operator_new E d = Inr f \<and> operator_new_alloc E d = Inr g \<and>
      (\<forall>sz w. f sz w = (case ThreadAlloc_get E w of (a, w1) \<Rightarrow> g sz a w1)) \<and>
      (\<forall>sz a w. g sz a w =
         (if Base d = Object then RegionClass_create E (region_type d) (vsizeof d) a D w
          else (case Alloc_alloc E a (vsizeof d) w of
                  (p, w1) \<Rightarrow> Object_register_object E p D w1))))"
proof -
  have D: "D = desc d"
    using instantiate_V_Inr(1) [OF assms] .
  have B: "Base d = Object \<or> Base d = Cown"
    using assms by (rule managed_base)
  show ?thesis
  proof (cases "Base d = Object")
    case True
    then show ?thesis
      using assms
      by (simp add: operator_new_def operator_new_alloc_def and_then_def D desc_size
          RegionClass_def)
  next
    case False
    then show ?thesis
      using assms B
      by (simp add: operator_new_def operator_new_alloc_def and_then_def D desc_size
          RegionClass_def)
  qed
qed

theorem operator_new_routing_witness:
  "(\<exists>f g. operator_new recording Counter = Inr f \<and> operator_new_alloc recording Counter = Inr g \<and>
      f 16 [] = (Ptr 1, [Called_ThreadAlloc_get, Called_create Trace 16 (Alloc_at 0) (desc Counter)]) \<and>
      g 16 (Alloc_at 5) [] = (Ptr 0, [Called_create Trace 16 (Alloc_at 5) (desc Counter)])) \<and>
   (\<exists>f g. operator_new recording Actor = Inr f \<and> operator_new_alloc recording Actor = Inr g \<and>
      f 24 [] = (Ptr 1, [Called_ThreadAlloc_get, Called_alloc (Alloc_at 0) 24,
                         Called_register_object (Ptr 1) (desc Actor)]) \<and>
      g 24 (Alloc_at 5) [] = (Ptr 0, [Called_alloc (Alloc_at 5) 24,
                         Called_register_object (Ptr 0) (desc Actor)]))"
proof -
  from operator_new_routing [OF Counter_ok, of recording]
    operator_new_routing [OF Actor_ok, of recording]
  show ?thesis
    by (auto simp: Counter_fields Actor_fields recording_def)
qed

text \<open>
  Claim C5: for a managed type the two entry points that take a parent object are a
  static assertion failure over the ownership-cell base. Over the plain-object base they
  compile and ask the type's region class to allocate in the region of the object given,
  with the current-thread allocator or the allocator given.
\<close>

theorem parent_relative_new:
  assumes "instantiate_V d = Inr D"
  shows "(Base d = Object \<or> Base d = Cown) \<and>
    (Base d = Cown \<longrightarrow>
       operator_new_region E d = Inl (Static_assert_failed ''Don't call on cowns.'') \<and>
       operator_new_alloc_region E d = Inl (Static_assert_failed ''Don't call on cowns.'')) \<and>
    (Base d = Object \<longrightarrow>
       operator_new_region E d =
         Inr (\<lambda>sz region w. case ThreadAlloc_get E w of
                (a, w1) \<Rightarrow> RegionClass_alloc E (region_type d) (vsizeof d) a region D w1) \<and>
       operator_new_alloc_region E d =
         Inr (\<lambda>sz alloc region w.
                RegionClass_alloc E (region_type d) (vsizeof d) alloc region D w))"
proof -
  have D: "D = desc d"
    using instantiate_V_Inr(1) [OF assms] .
  have B: "Base d = Object \<or> Base d = Cown"
    using assms by (rule managed_base)
  show ?thesis
    using assms B
    by (auto simp: operator_new_region_def operator_new_alloc_region_def and_then_def D
        desc_size RegionClass_def)
qed

theorem parent_relative_new_witness:
  "(\<exists>f g. operator_new_region recording Counter = Inr f \<and>
      operator_new_alloc_region recording Counter = Inr g \<and>
      f 16 (Ptr 7) [] = (Ptr 1, [Called_ThreadAlloc_get,
                                 Called_region_alloc Trace 16 (Alloc_at 0) (Ptr 7) (desc Counter)]) \<and>
      g 16 (Alloc_at 5) (Ptr 7) [] =
        (Ptr 0, [Called_region_alloc Trace 16 (Alloc_at 5) (Ptr 7) (desc Counter)])) \<and>
   instantiate_V Actor = Inr (desc Actor) \<and>
   operator_new_region recording Actor = Inl (Static_assert_failed ''Don't call on cowns.'') \<and>
   operator_new_alloc_region recording Actor = Inl (Static_assert_failed ''Don't call on cowns.'')"
proof -
  from parent_relative_new [OF Counter_ok, of recording]
    parent_relative_new [OF Actor_ok, of recording]
  show ?thesis
    by (simp add: Counter_fields Actor_fields recording_def Actor_ok)
qed

text \<open>
  Claim C9 says that every allocation entry point queries the allocation epoch and passes
  the marker on. It does not: constructing a \<open>Counter\<close> through the no-argument entry
  point calls \<open>ThreadAlloc::get\<close> and the region's \<open>create\<close>, and never
  \<open>Scheduler::alloc_epoch\<close>.
\<close>

theorem operator_new_makes_no_epoch_query:
  "\<exists>f. operator_new recording Counter = Inr f \<and>
     snd (f 16 []) = [Called_ThreadAlloc_get, Called_create Trace 16 (Alloc_at 0) (desc Counter)] \<and>
     Called_alloc_epoch \<notin> set (snd (f 16 []))"
  by (simp add: operator_new_def Counter_ok and_then_def recording_def RegionClass_def
      Counter_fields desc_size)

text \<open>
  Claim C9 as amended: \<open>get_alloc_epoch\<close> returns what the scheduler's epoch query
  returns, and none of the four allocation entry points depends on that query: replacing
  it by any other function changes none of them.
\<close>

theorem alloc_epoch_not_used_by_entry_points:
  "operator_new (E\<lparr>Scheduler_alloc_epoch := q\<rparr>) d = operator_new E d \<and>
   operator_new_alloc (E\<lparr>Scheduler_alloc_epoch := q\<rparr>) d = operator_new_alloc E d \<and>
   operator_new_region (E\<lparr>Scheduler_alloc_epoch := q\<rparr>) d = operator_new_region E d \<and>
   operator_new_alloc_region (E\<lparr>Scheduler_alloc_epoch := q\<rparr>) d = operator_new_alloc_region E d \<and>
   get_alloc_epoch E w = Scheduler_alloc_epoch E w"
  by (simp add: operator_new_def operator_new_alloc_def operator_new_region_def
      operator_new_alloc_region_def get_alloc_epoch_def)

subsection \<open>Deallocation and array forms\<close>

text \<open>
  Claim C8: each of the five forms of \<open>operator delete\<close> leaves the world as it was,
  whatever its arguments.
\<close>

theorem operator_delete_no_op: "operator_delete args w = w"
  by (cases args) simp_all

text \<open>
  Claim C7 says that any attempt to allocate or deallocate an array of a managed type
  fails to compile. What is deleted are the array forms of \<open>V\<close>. \<open>Pooled\<close> is a
  managed type with array forms of its own, which hide them: \<open>new Pooled[n]\<close> and
  \<open>delete[] p\<close> compile and use the functions of \<open>Pooled\<close>. And
  \<open>::new Counter[n]\<close> and \<open>::delete[] p\<close> compile and use the global functions.
\<close>

theorem array_forms_of_own_or_global_compile:
  "instantiate_V Pooled = Inr (desc Pooled) \<and>
   array_new_expression Pooled False =
     Inr (Member_function
           (In_T, \<lparr>m_name = ''operator new[]'', m_access = Public,
                   m_kind = Static_method [Size_t]\<rparr>)) \<and>
   array_delete_expression Pooled False =
     Inr (Member_function
           (In_T, \<lparr>m_name = ''operator delete[]'', m_access = Public,
                   m_kind = Static_method [Void_ptr]\<rparr>)) \<and>
   instantiate_V Counter = Inr (desc Counter) \<and>
   array_new_expression Counter True = Inr Global_function \<and>
   array_delete_expression Counter True = Inr Global_function"
proof -
  have "array_new_expression Pooled False =
     Inr (Member_function
           (In_T, \<lparr>m_name = ''operator new[]'', m_access = Public,
                   m_kind = Static_method [Size_t]\<rparr>))"
    by (simp add: array_new_expression_def usual_deallocation_def check_use_def eval_defs
        Pooled_def)
  moreover have "array_delete_expression Pooled False =
     Inr (Member_function
           (In_T, \<lparr>m_name = ''operator delete[]'', m_access = Public,
                   m_kind = Static_method [Void_ptr]\<rparr>))"
    by (simp add: array_delete_expression_def usual_deallocation_def check_use_def eval_defs
        Pooled_def)
  moreover have "array_new_expression Counter True = Inr Global_function"
    by (simp add: array_new_expression_def static_asserts_def and_then_def Counter_fields)
  moreover have "array_delete_expression Counter True = Inr Global_function"
    by (simp add: array_delete_expression_def static_asserts_def and_then_def Counter_fields)
  ultimately show ?thesis
    using Pooled_ok Counter_ok by simp
qed

text \<open>
  Claim C7 as amended: the array forms that \<open>V\<close> declares are all deleted, so for a
  managed type that declares no \<open>operator new[]\<close> of its own the expression
  \<open>new T[n]\<close> selects a deleted function and does not compile, and for one that
  declares no \<open>operator delete[]\<close> of its own the expression \<open>delete[] p\<close> does
  not.
\<close>

theorem inherited_array_forms_deleted:
  assumes "instantiate_V d = Inr D"
  shows "list_all (\<lambda>m. is_deleted (m_kind m))
           (named ''operator new[]'' V_members @ named ''operator delete[]'' V_members) \<and>
    (\<not> declares d ''operator new[]'' \<longrightarrow>
       array_new_expression d False = Inl (Deleted_function ''operator new[]'')) \<and>
    (\<not> declares d ''operator delete[]'' \<longrightarrow>
       array_delete_expression d False = Inl (Deleted_function ''operator delete[]''))"
proof -
  from instantiate_V_Inr(2) [OF assms] obtain u where sa: "static_asserts d = Inr u" ..
  have "list_all (\<lambda>m. is_deleted (m_kind m))
           (named ''operator new[]'' V_members @ named ''operator delete[]'' V_members)"
    by (simp add: named_def V_members_def)
  moreover have "array_new_expression d False = Inl (Deleted_function ''operator new[]'')"
    if "\<not> declares d ''operator new[]''"
    by (simp add: array_new_expression_def sa and_then_def lookup_new_array_undeclared [OF that]
        resolve_at_def viable_def conversions_def conversion_def)
  moreover have "array_delete_expression d False = Inl (Deleted_function ''operator delete[]'')"
    if "\<not> declares d ''operator delete[]''"
    by (simp add: array_delete_expression_def sa and_then_def
        lookup_delete_array_undeclared [OF that] usual_deallocation_def check_use_def)
  ultimately show ?thesis by blast
qed

theorem inherited_array_forms_deleted_witness:
  "instantiate_V Counter = Inr (desc Counter) \<and>
   \<not> declares Counter ''operator new[]'' \<and> \<not> declares Counter ''operator delete[]'' \<and>
   array_new_expression Counter False = Inl (Deleted_function ''operator new[]'') \<and>
   array_delete_expression Counter False = Inl (Deleted_function ''operator delete[]'') \<and>
   instantiate_V Actor = Inr (desc Actor) \<and>
   \<not> declares Actor ''operator new[]'' \<and> \<not> declares Actor ''operator delete[]'' \<and>
   array_new_expression Actor False = Inl (Deleted_function ''operator new[]'') \<and>
   array_delete_expression Actor False = Inl (Deleted_function ''operator delete[]'')"
proof -
  have c: "\<not> declares Counter ''operator new[]''" "\<not> declares Counter ''operator delete[]''"
    by (simp_all add: declares_def named_def Counter_def)
  have a: "\<not> declares Actor ''operator new[]''" "\<not> declares Actor ''operator delete[]''"
    by (simp_all add: declares_def named_def Actor_def)
  from inherited_array_forms_deleted [OF Counter_ok] inherited_array_forms_deleted [OF Actor_ok]
  show ?thesis
    using c a Counter_ok Actor_ok by simp
qed

end
